theory Spec2Isabelle
  imports Complex_Main
begin

section \<open>Retail ETL pipeline (notebooks/retail_etl.py)\<close>

text \<open>
  The script is one chain of dataframe operations, steps 5 to 9 of which are modelled
  here: cleaning, time-based features, the four analytics tables and the summary. The
  input is the table \<open>df_raw\<close> of step 4, the rows of both sheets with their
  \<open>fiscal_year\<close> tag; reading the sheets and writing the tables are left out.

  A dataframe is a list of rows. The engine fixes no order of the rows, so the order of
  the list is the order in which the engine happens to meet them. A nullable column is
  an \<open>option\<close>, with \<open>None\<close> for SQL null. A timestamp is a number of microseconds
  since 1970-01-01T00:00:00 in the session time zone.

  A number of a sheet reaches the engine as a 64-bit integer or as a double, depending
  on the cells of its column, and an empty cell of a numeric column reaches it as the
  double not-a-number, which is a value and not null. A quantity and a price are held
  here by their exact values. What the engine computes from them, the product, its
  rounding and the sums, is floating-point or wrapping 64-bit arithmetic done in an order
  of the engine's choosing: it is not computed here but taken from the engine, as the
  parameter \<open>E\<close> of every function that needs it.
\<close>

subsection \<open>Rows\<close>

type_synonym timestamp = int

text \<open>
  A value of the customer identifier column, a column of doubles: the number of a
  customer, or not-a-number for a row whose cell is empty.
\<close>

datatype customer = NaN | Id int

text \<open>
  The columns of a sheet plus the \<open>fiscal_year\<close> tag that step 3 assigns. The type
  parameter is the type of the invoice-date cell: the value as read before
  \<open>to_timestamp\<close>, a timestamp after it. In the Quantity and Price columns \<open>None\<close>
  stands for null and for not-a-number alike: \<open>dropna\<close>, the first call of the chain,
  drops the row in both cases. In the Customer ID column, which \<open>dropna\<close> does not
  look at, not-a-number is the value \<open>NaN\<close>.
\<close>

record 'd retail_row =
  Invoice :: "string option"
  StockCode :: "string option"
  Description :: "string option"
  Quantity :: "int option"
  InvoiceDate :: "'d option"
  Price :: "rat option"
  Customer_ID :: "customer option"
  Country :: "string option"
  fiscal_year :: string

text \<open>The type parameter \<open>'a\<close> is the type of an amount of the engine.\<close>

record ('d, 'a) cleaned_row = "'d retail_row" +
  TotalAmount :: "'a option"

record 'a enriched_row = "(timestamp, 'a) cleaned_row" +
  Year :: "int option"
  Month :: "int option"
  Quarter :: "int option"
  DayName :: "string option"
  Hour :: "int option"
  MonthName :: "string option"

subsection \<open>The arithmetic of the engine\<close>

text \<open>
  \<open>product_of E q p\<close> is the value of \<open>col("Quantity") * col("Price")\<close> for the
  quantity \<open>q\<close> and the price \<open>p\<close>, \<open>round_of E x d\<close> the value of
  \<open>round(x, d)\<close>, \<open>sum_of E xs\<close> the sum that the engine returns for the amounts
  \<open>xs\<close>, met in this order, and \<open>sum_of_quantity E qs\<close> the same for quantities.
\<close>

record 'a engine =
  product_of :: "int \<Rightarrow> rat \<Rightarrow> 'a"
  round_of :: "'a \<Rightarrow> nat \<Rightarrow> 'a"
  sum_of :: "'a list \<Rightarrow> 'a"
  sum_of_quantity :: "int list \<Rightarrow> int"

subsection \<open>Column functions of the dataframe library\<close>

text \<open>The non-null values of a column.\<close>

fun non_null :: "'a option list \<Rightarrow> 'a list" where
  "non_null [] = []"
| "non_null (None # xs) = non_null xs"
| "non_null (Some x # xs) = x # non_null xs"

text \<open>
  \<open>sum\<close>, \<open>max\<close>: null values are skipped, the result is null when none is left.
  The sum of the values that are left is the engine's.
\<close>

definition sum_agg :: "('a list \<Rightarrow> 'a) \<Rightarrow> 'a option list \<Rightarrow> 'a option" where
  "sum_agg add xs = (case non_null xs of [] \<Rightarrow> None | y # ys \<Rightarrow> Some (add (y # ys)))"

definition max_agg :: "'a::linorder option list \<Rightarrow> 'a option" where
  "max_agg xs = (case non_null xs of [] \<Rightarrow> None | y # ys \<Rightarrow> Some (fold max ys y))"

text \<open>
  \<open>count(c)\<close> counts the non-null values, \<open>countDistinct(c)\<close> the distinct ones;
  not-a-number is a non-null value and is counted.
\<close>

definition count_agg :: "'a option list \<Rightarrow> nat" where
  "count_agg xs = length (non_null xs)"

definition countDistinct :: "'a option list \<Rightarrow> nat" where
  "countDistinct xs = length (remdups (non_null xs))"

text \<open>
  \<open>select(c).distinct().count()\<close>: null is a value like any other, and so is
  not-a-number.
\<close>

definition distinct_count :: "'a list \<Rightarrow> nat" where
  "distinct_count xs = length (remdups xs)"

text \<open>\<open>to_timestamp\<close>: null stays null, a value that does not parse becomes null.\<close>

definition to_timestamp :: "('d \<Rightarrow> timestamp option) \<Rightarrow> 'd option \<Rightarrow> timestamp option" where
  "to_timestamp parse c = (case c of None \<Rightarrow> None | Some v \<Rightarrow> parse v)"

text \<open>Calendar: days since the epoch, and the civil date of a day number.\<close>

definition micros_per_day :: int where
  "micros_per_day = 86400000000"

definition micros_per_hour :: int where
  "micros_per_hour = 3600000000"

definition to_date :: "timestamp \<Rightarrow> int" where
  "to_date t = t div micros_per_day"

definition civil_from_days :: "int \<Rightarrow> int \<times> int \<times> int" where
  "civil_from_days z0 =
     (let z = z0 + 719468;
          era = z div 146097;
          doe = z - era * 146097;
          yoe = (doe - doe div 1460 + doe div 36524 - doe div 146096) div 365;
          doy = doe - (365 * yoe + yoe div 4 - yoe div 100);
          mp = (5 * doy + 2) div 153;
          d = doy - (153 * mp + 2) div 5 + 1;
          m = (if mp < 10 then mp + 3 else mp - 9);
          y = yoe + era * 400 + (if m \<le> 2 then 1 else 0)
      in (y, m, d))"

definition year :: "timestamp option \<Rightarrow> int option" where
  "year c = map_option (\<lambda>t. fst (civil_from_days (to_date t))) c"

definition month :: "timestamp option \<Rightarrow> int option" where
  "month c = map_option (\<lambda>t. fst (snd (civil_from_days (to_date t)))) c"

definition quarter :: "timestamp option \<Rightarrow> int option" where
  "quarter c = map_option (\<lambda>t. (fst (snd (civil_from_days (to_date t))) - 1) div 3 + 1) c"

definition hour :: "timestamp option \<Rightarrow> int option" where
  "hour c = map_option (\<lambda>t. (t mod micros_per_day) div micros_per_hour) c"

definition day_names :: "string list" where
  "day_names = [''Sunday'', ''Monday'', ''Tuesday'', ''Wednesday'', ''Thursday'',
     ''Friday'', ''Saturday'']"

definition month_names :: "string list" where
  "month_names = [''January'', ''February'', ''March'', ''April'', ''May'', ''June'',
     ''July'', ''August'', ''September'', ''October'', ''November'', ''December'']"

text \<open>\<open>date_format(c, "EEEE")\<close> and \<open>date_format(c, "MMMM")\<close>.\<close>

definition date_format_EEEE :: "timestamp option \<Rightarrow> string option" where
  "date_format_EEEE c = map_option (\<lambda>t. day_names ! nat ((to_date t + 4) mod 7)) c"

definition date_format_MMMM :: "timestamp option \<Rightarrow> string option" where
  "date_format_MMMM c =
     map_option (\<lambda>t. month_names ! nat (fst (snd (civil_from_days (to_date t))) - 1)) c"

text \<open>\<open>datediff(end, start)\<close>: whole days between the two dates, null if either is.\<close>

definition datediff :: "timestamp option \<Rightarrow> timestamp option \<Rightarrow> int option" where
  "datediff e s =
     (case e of None \<Rightarrow> None
      | Some a \<Rightarrow> (case s of None \<Rightarrow> None | Some b \<Rightarrow> Some (to_date a - to_date b)))"

text \<open>
  \<open>dropDuplicates(key)\<close> keeps one row for each key. Which one is left to the engine:
  here it is the first that the engine meets, so the order of the list stands for the
  engine's choice.
\<close>

fun dropDuplicates :: "('a \<Rightarrow> 'k) \<Rightarrow> 'a list \<Rightarrow> 'a list" where
  "dropDuplicates key [] = []"
| "dropDuplicates key (r # rs) = r # dropDuplicates key (filter (\<lambda>s. key s \<noteq> key r) rs)"

text \<open>
  \<open>groupBy(key)\<close>: one group for each key value, null and not-a-number included.
\<close>

definition groupBy :: "('a \<Rightarrow> 'k) \<Rightarrow> 'a list \<Rightarrow> ('k \<times> 'a list) list" where
  "groupBy key df = map (\<lambda>k. (k, filter (\<lambda>r. key r = k) df)) (remdups (map key df))"

subsection \<open>Step 5: cleaning\<close>

definition dropna :: "('d, 'z) retail_row_scheme list \<Rightarrow> ('d, 'z) retail_row_scheme list" where
  "dropna df = filter (\<lambda>r. Invoice r \<noteq> None \<and> StockCode r \<noteq> None \<and>
                           Quantity r \<noteq> None \<and> Price r \<noteq> None) df"

text \<open>A comparison with null is null, and \<open>filter\<close> keeps the rows where it is true.\<close>

definition positive :: "'a::{zero,ord} option \<Rightarrow> bool" where
  "positive c = (case c of None \<Rightarrow> False | Some v \<Rightarrow> 0 < v)"

definition withColumn_InvoiceDate ::
  "('d \<Rightarrow> timestamp option) \<Rightarrow> 'd retail_row \<Rightarrow> timestamp retail_row" where
  "withColumn_InvoiceDate parse r =
     \<lparr>Invoice = Invoice r, StockCode = StockCode r, Description = Description r,
      Quantity = Quantity r, InvoiceDate = to_timestamp parse (InvoiceDate r),
      Price = Price r, Customer_ID = Customer_ID r, Country = Country r,
      fiscal_year = fiscal_year r\<rparr>"

text \<open>\<open>round(col("Quantity") * col("Price"), 2)\<close>, null if either column is.\<close>

definition total_amount :: "'a engine \<Rightarrow> int option \<Rightarrow> rat option \<Rightarrow> 'a option" where
  "total_amount E q p =
     (case q of None \<Rightarrow> None
      | Some a \<Rightarrow> (case p of None \<Rightarrow> None
                  | Some b \<Rightarrow> Some (round_of E (product_of E a b) 2)))"

definition withColumn_TotalAmount :: "'a engine \<Rightarrow> 'd retail_row \<Rightarrow> ('d, 'a) cleaned_row" where
  "withColumn_TotalAmount E r =
     retail_row.extend r (cleaned_row.fields (total_amount E (Quantity r) (Price r)))"

definition dedup_key :: "('d, 'z) retail_row_scheme \<Rightarrow> string option \<times> string option \<times> 'd option" where
  "dedup_key r = (Invoice r, StockCode r, InvoiceDate r)"

text \<open>The table before the last call of the chain, and the cleaned table.\<close>

definition df_candidates ::
  "'a engine \<Rightarrow> ('d \<Rightarrow> timestamp option) \<Rightarrow> 'd retail_row list \<Rightarrow>
     (timestamp, 'a) cleaned_row list" where
  "df_candidates E parse df_raw =
     map (withColumn_TotalAmount E)
       (map (withColumn_InvoiceDate parse)
         (filter (\<lambda>r. positive (Price r))
           (filter (\<lambda>r. positive (Quantity r))
             (dropna df_raw))))"

definition df_cleaned ::
  "'a engine \<Rightarrow> ('d \<Rightarrow> timestamp option) \<Rightarrow> 'd retail_row list \<Rightarrow>
     (timestamp, 'a) cleaned_row list" where
  "df_cleaned E parse df_raw = dropDuplicates dedup_key (df_candidates E parse df_raw)"

subsection \<open>Step 6: time-based features\<close>

definition add_features :: "(timestamp, 'a) cleaned_row \<Rightarrow> 'a enriched_row" where
  "add_features c =
     cleaned_row.extend c
       (enriched_row.fields
         (year (InvoiceDate c))
         (month (InvoiceDate c))
         (quarter (InvoiceDate c))
         (date_format_EEEE (InvoiceDate c))
         (hour (InvoiceDate c))
         (date_format_MMMM (InvoiceDate c)))"

definition df_enriched :: "(timestamp, 'a) cleaned_row list \<Rightarrow> 'a enriched_row list" where
  "df_enriched df = map add_features df"

text \<open>
  The error kinds of the design. Lines 69 to 75 of the script raise nothing: each column
  function maps null to null, so the outcome of the step is always a table.
\<close>

datatype etl_error =
  SourceReadError | MalformedTimestampError | InvalidTimestampError | SinkWriteError

definition enrichment_stage ::
  "(timestamp, 'a) cleaned_row list \<Rightarrow> etl_error + 'a enriched_row list" where
  "enrichment_stage df = Inr (df_enriched df)"

text \<open>
  Column names. \<open>withColumn\<close> replaces a column of the same name and appends a new one
  otherwise. The raw columns are those of the sheets that the script refers to, and the
  tag of step 3.
\<close>

definition withColumn_name :: "string list \<Rightarrow> string \<Rightarrow> string list" where
  "withColumn_name cols c = (if c \<in> set cols then cols else cols @ [c])"

definition raw_columns :: "string list" where
  "raw_columns = [''Invoice'', ''StockCode'', ''Description'', ''Quantity'', ''InvoiceDate'',
     ''Price'', ''Customer ID'', ''Country'', ''fiscal_year'']"

definition cleaned_columns :: "string list" where
  "cleaned_columns = withColumn_name (withColumn_name raw_columns ''InvoiceDate'') ''TotalAmount''"

definition enriched_columns :: "string list" where
  "enriched_columns =
     withColumn_name (withColumn_name (withColumn_name (withColumn_name (withColumn_name
       (withColumn_name cleaned_columns ''Year'') ''Month'') ''Quarter'') ''DayName'')
       ''Hour'') ''MonthName''"

subsection \<open>Step 7: analytics\<close>

record 'a customer_agg =
  Customer_ID :: "customer option"
  LastPurchaseDate :: "timestamp option"
  Frequency :: nat
  MonetaryValue :: "'a option"

record 'a customer_rfm_row = "'a customer_agg" +
  Recency :: "int option"

record 'a product_analysis_row =
  StockCode :: "string option"
  Description :: "string option"
  TotalQuantitySold :: "int option"
  TotalRevenue :: "'a option"
  UniqueCustomers :: nat

record 'a country_sales_row =
  Country :: "string option"
  TotalRevenue :: "'a option"
  TotalOrders :: nat
  UniqueCustomers :: nat

record 'a monthly_trends_row =
  fiscal_year :: string
  Year :: "int option"
  Month :: "int option"
  MonthName :: "string option"
  MonthlyRevenue :: "'a option"
  MonthlyOrders :: nat

definition max_date :: "(timestamp, 'z) retail_row_scheme list \<Rightarrow> timestamp option" where
  "max_date df = max_agg (map InvoiceDate df)"

definition customer_rfm ::
  "'a engine \<Rightarrow> (timestamp, 'a, 'z) cleaned_row_scheme list \<Rightarrow> 'a customer_rfm_row list" where
  "customer_rfm E df =
     map (\<lambda>a. customer_agg.extend a
                 (customer_rfm_row.fields (datediff (max_date df) (LastPurchaseDate a))))
       (map (\<lambda>(k, g).
               \<lparr>Customer_ID = k,
                LastPurchaseDate = max_agg (map InvoiceDate g),
                Frequency = count_agg (map Invoice g),
                MonetaryValue = sum_agg (sum_of E) (map TotalAmount g)\<rparr>)
          (groupBy retail_row.Customer_ID df))"

definition product_analysis ::
  "'a engine \<Rightarrow> ('d, 'a, 'z) cleaned_row_scheme list \<Rightarrow> 'a product_analysis_row list" where
  "product_analysis E df =
     map (\<lambda>(k, g).
            \<lparr>StockCode = fst k, Description = snd k,
             TotalQuantitySold = sum_agg (sum_of_quantity E) (map Quantity g),
             TotalRevenue = sum_agg (sum_of E) (map TotalAmount g),
             UniqueCustomers = countDistinct (map retail_row.Customer_ID g)\<rparr>)
       (groupBy (\<lambda>r. (retail_row.StockCode r, retail_row.Description r)) df)"

definition country_sales ::
  "'a engine \<Rightarrow> ('d, 'a, 'z) cleaned_row_scheme list \<Rightarrow> 'a country_sales_row list" where
  "country_sales E df =
     map (\<lambda>(k, g).
            \<lparr>Country = k,
             TotalRevenue = sum_agg (sum_of E) (map TotalAmount g),
             TotalOrders = count_agg (map Invoice g),
             UniqueCustomers = countDistinct (map retail_row.Customer_ID g)\<rparr>)
       (groupBy retail_row.Country df)"

definition monthly_trends :: "'a engine \<Rightarrow> 'a enriched_row list \<Rightarrow> 'a monthly_trends_row list" where
  "monthly_trends E df =
     map (\<lambda>(k, g).
            \<lparr>fiscal_year = fst k, Year = fst (snd k), Month = fst (snd (snd k)),
             MonthName = snd (snd (snd k)),
             MonthlyRevenue = sum_agg (sum_of E) (map TotalAmount g),
             MonthlyOrders = count_agg (map Invoice g)\<rparr>)
       (groupBy (\<lambda>r. (retail_row.fiscal_year r, enriched_row.Year r, enriched_row.Month r,
                       enriched_row.MonthName r)) df)"

subsection \<open>Step 9: summary\<close>

definition total_revenue :: "'a engine \<Rightarrow> ('d, 'a, 'z) cleaned_row_scheme list \<Rightarrow> 'a option" where
  "total_revenue E df = sum_agg (sum_of E) (map TotalAmount df)"

definition total_orders :: "('d, 'z) retail_row_scheme list \<Rightarrow> nat" where
  "total_orders df = distinct_count (map Invoice df)"


definition unique_products :: "('d, 'z) retail_row_scheme list \<Rightarrow> nat" where
  "unique_products df = distinct_count (map retail_row.StockCode df)"

subsection \<open>Sample rows\<close>

text \<open>
  An engine for the sample rows. Their quantities and prices are small whole numbers, on
  which the arithmetic of doubles and of 64-bit integers is exact, so this engine
  computes exactly: the product, the rounding half away from zero at \<open>d\<close> decimal
  places, and the sums.
\<close>

definition round_half_up :: "rat \<Rightarrow> nat \<Rightarrow> rat" where
  "round_half_up x d =
     (if x < 0 then - (of_int \<lfloor>- x * 10 ^ d + 1 / 2\<rfloor> / 10 ^ d)
      else of_int \<lfloor>x * 10 ^ d + 1 / 2\<rfloor> / 10 ^ d)"

definition sample_engine :: "rat engine" where
  "sample_engine =
     \<lparr>product_of = (\<lambda>q p. of_int q * p), round_of = round_half_up,
      sum_of = sum_list, sum_of_quantity = sum_list\<rparr>"

text \<open>
  A reading of the date cell that knows one format, and rows of one invoice line: two
  that collide on the key with different quantities, one whose date cell does not parse,
  one whose date cell is null, a return, a purchase with an empty customer cell from
  another country a day later, and the same purchase with a null customer.
\<close>

definition sample_parse :: "string \<Rightarrow> timestamp option" where
  "sample_parse s =
     (if s = ''2010-12-01 08:26:00'' then Some 1291191960000000
      else if s = ''2010-12-02 09:00:00'' then Some 1291280400000000
      else None)"

definition row_a :: "string retail_row" where
  "row_a = \<lparr>Invoice = Some ''A1'', StockCode = Some ''X'', Description = Some ''LAMP'',
     Quantity = Some 1, InvoiceDate = Some ''2010-12-01 08:26:00'', Price = Some 3,
     Customer_ID = Some (Id 13085), Country = Some ''United Kingdom'',
     fiscal_year = ''2010-2011''\<rparr>"

definition row_b :: "string retail_row" where
  "row_b = row_a\<lparr>Quantity := Some 2\<rparr>"

definition row_bad_date :: "string retail_row" where
  "row_bad_date = row_a\<lparr>InvoiceDate := Some ''not a date''\<rparr>"

definition row_no_date :: "string retail_row" where
  "row_no_date = row_a\<lparr>InvoiceDate := None\<rparr>"

definition row_return :: "string retail_row" where
  "row_return = row_a\<lparr>Invoice := Some ''C2'', Quantity := Some (- 5)\<rparr>"

definition row_anon :: "string retail_row" where
  "row_anon = \<lparr>Invoice = Some ''A3'', StockCode = Some ''Y'', Description = Some ''MUG'',
     Quantity = Some 4, InvoiceDate = Some ''2010-12-02 09:00:00'', Price = Some 2,
     Customer_ID = Some NaN, Country = Some ''France'', fiscal_year = ''2010-2011''\<rparr>"


text \<open>A second line of the invoice of \<open>row_a\<close>.\<close>

definition row_c :: "string retail_row" where
  "row_c = row_a\<lparr>retail_row.StockCode := Some ''Z'', Quantity := Some 5\<rparr>"

section \<open>Properties\<close>

subsection \<open>Deduplication\<close>

lemma set_dropDuplicates_subset: "set (dropDuplicates key xs) \<subseteq> set xs"
  by (induction key xs rule: dropDuplicates.induct) auto

lemma keys_dropDuplicates: "key ` set (dropDuplicates key xs) = key ` set xs"
proof (induction key xs rule: dropDuplicates.induct)
  case (1 key)
  then show ?case by simp
next
  case (2 key r rs)
  have "key ` set (r # rs) = insert (key r) (key ` set (filter (\<lambda>s. key s \<noteq> key r) rs))"
    by auto
  with 2 show ?case by simp
qed

lemma distinct_keys_dropDuplicates: "distinct (map key (dropDuplicates key xs))"
proof (induction key xs rule: dropDuplicates.induct)
  case (1 key)
  then show ?case by simp
next
  case (2 key r rs)
  have "key r \<notin> key ` set (dropDuplicates key (filter (\<lambda>s. key s \<noteq> key r) rs))"
    unfolding keys_dropDuplicates by auto
  with 2 show ?case by simp
qed

lemma dropDuplicates_filter:
  "dropDuplicates key (filter (\<lambda>s. key s \<notin> K) xs) =
     filter (\<lambda>s. key s \<notin> K) (dropDuplicates key xs)"
proof (induction key xs rule: dropDuplicates.induct)
  case (1 key)
  show ?case by simp
next
  case (2 key r rs)
  let ?rs' = "filter (\<lambda>s. key s \<noteq> key r) rs"
  have IH: "dropDuplicates key (filter (\<lambda>s. key s \<notin> K) ?rs') =
              filter (\<lambda>s. key s \<notin> K) (dropDuplicates key ?rs')"
    by (rule 2)
  have comm: "filter (\<lambda>s. key s \<noteq> key r) (filter (\<lambda>s. key s \<notin> K) rs) =
                filter (\<lambda>s. key s \<notin> K) ?rs'"
    by (simp add: conj_commute)
  show ?case
  proof (cases "key r \<in> K")
    case False
    then show ?thesis by (simp del: filter_filter add: comm IH)
  next
    case True
    have "filter (\<lambda>s. key s \<notin> K) rs = filter (\<lambda>s. key s \<notin> K) ?rs'"
      using True by (auto intro!: filter_cong)
    then show ?thesis using True by (simp del: filter_filter add: IH)
  qed
qed

lemma dropDuplicates_filter_neq:
  "dropDuplicates key (filter (\<lambda>s. key s \<noteq> k) xs) =
     filter (\<lambda>s. key s \<noteq> k) (dropDuplicates key xs)"
  using dropDuplicates_filter [of key "{k}" xs] by simp

lemma dropDuplicates_append:
  "dropDuplicates key (xs @ ys) =
     dropDuplicates key xs @ filter (\<lambda>y. key y \<notin> key ` set xs) (dropDuplicates key ys)"
proof (induction key xs arbitrary: ys rule: dropDuplicates.induct)
  case (1 key)
  then show ?case by simp
next
  case (2 key r rs)
  let ?rs' = "filter (\<lambda>s. key s \<noteq> key r) rs"
  have "dropDuplicates key ((r # rs) @ ys) =
        r # dropDuplicates key (?rs' @ filter (\<lambda>s. key s \<noteq> key r) ys)"
    by simp
  also have "\<dots> = r # dropDuplicates key ?rs' @
       filter (\<lambda>y. key y \<notin> key ` set ?rs') (dropDuplicates key (filter (\<lambda>s. key s \<noteq> key r) ys))"
    using 2 by simp
  also have "dropDuplicates key (filter (\<lambda>s. key s \<noteq> key r) ys) =
       filter (\<lambda>s. key s \<noteq> key r) (dropDuplicates key ys)"
    by (rule dropDuplicates_filter_neq)
  also have "filter (\<lambda>y. key y \<notin> key ` set ?rs') (filter (\<lambda>s. key s \<noteq> key r) (dropDuplicates key ys)) =
       filter (\<lambda>y. key y \<notin> key ` set (r # rs)) (dropDuplicates key ys)"
    by (auto intro!: filter_cong)
  finally show ?case by simp
qed

lemma length_filter_key_one:
  assumes "distinct (map key ys)" and "k \<in> key ` set ys"
  shows "length (filter (\<lambda>x. key x = k) ys) = 1"
  using assms
proof (induction ys)
  case Nil
  then show ?case by simp
next
  case (Cons y ys)
  have notin: "key y \<notin> key ` set ys" and dist: "distinct (map key ys)"
    using Cons.prems(1) by simp_all
  show ?case
  proof (cases "key y = k")
    case True
    have "\<And>x. x \<in> set ys \<Longrightarrow> key x \<noteq> k"
    proof
      fix x assume "x \<in> set ys" "key x = k"
      then have "key y \<in> key ` set ys" using True by (metis imageI)
      then show False using notin by simp
    qed
    then have "filter (\<lambda>x. key x = k) ys = []"
      unfolding filter_empty_conv by blast
    then show ?thesis using True by simp
  next
    case False
    then have "k \<in> key ` set ys" using Cons.prems(2) by auto
    then have "length (filter (\<lambda>x. key x = k) ys) = 1"
      using Cons.IH dist by blast
    then show ?thesis using False by simp
  qed
qed

subsection \<open>Cleaning\<close>

lemma df_candidates_append:
  "df_candidates E parse (xs @ ys) = df_candidates E parse xs @ df_candidates E parse ys"
  by (simp add: df_candidates_def dropna_def)

lemma df_candidates_single:
  "df_candidates E parse [r] =
     (if Invoice r \<noteq> None \<and> retail_row.StockCode r \<noteq> None \<and>
         (\<exists>q. Quantity r = Some q \<and> 0 < q) \<and> (\<exists>p. Price r = Some p \<and> 0 < p)
      then [withColumn_TotalAmount E (withColumn_InvoiceDate parse r)] else [])"
  by (cases "Quantity r"; cases "Price r")
     (auto simp: df_candidates_def dropna_def positive_def)

lemma df_candidates_Cons:
  "df_candidates E parse (r # rs) = df_candidates E parse [r] @ df_candidates E parse rs"
  using df_candidates_append [of E parse "[r]" rs] by simp

lemma keys_df_cleaned:
  "dedup_key ` set (df_cleaned E parse df) = dedup_key ` set (df_candidates E parse df)"
  by (simp add: df_cleaned_def keys_dropDuplicates)

lemma df_cleaned_append:
  "df_cleaned E parse (xs @ ys) =
     df_cleaned E parse xs @
     filter (\<lambda>c. dedup_key c \<notin> dedup_key ` set (df_cleaned E parse xs)) (df_cleaned E parse ys)"
  unfolding keys_df_cleaned
  by (simp add: df_cleaned_def df_candidates_append dropDuplicates_append)

lemma df_cleaned_single: "df_cleaned E parse [r] = df_candidates E parse [r]"
  by (simp add: df_cleaned_def df_candidates_single)

lemma set_df_cleaned_subset: "set (df_cleaned E parse df) \<subseteq> set (df_candidates E parse df)"
  by (simp add: df_cleaned_def set_dropDuplicates_subset)

lemma df_candidates_row:
  assumes "c \<in> set (df_candidates E parse df)"
  shows "\<exists>r\<in>set df. c = withColumn_TotalAmount E (withColumn_InvoiceDate parse r) \<and>
           Invoice r \<noteq> None \<and> retail_row.StockCode r \<noteq> None \<and>
           (\<exists>q. Quantity r = Some q \<and> 0 < q) \<and> (\<exists>p. Price r = Some p \<and> 0 < p)"
  using assms
proof (induction df)
  case Nil
  then show ?case by (simp add: df_candidates_def dropna_def)
next
  case (Cons r rs)
  from Cons.prems have "c \<in> set (df_candidates E parse [r]) \<or> c \<in> set (df_candidates E parse rs)"
    by (simp add: df_candidates_Cons [of E parse r rs])
  then show ?case
  proof
    assume "c \<in> set (df_candidates E parse [r])"
    then show ?thesis by (simp add: df_candidates_single split: if_splits)
  next
    assume "c \<in> set (df_candidates E parse rs)"
    then show ?thesis using Cons.IH by auto
  qed
qed

lemmas sample_defs = sample_engine_def sample_parse_def row_a_def row_b_def row_bad_date_def row_no_date_def
  row_return_def row_anon_def
  withColumn_TotalAmount_def withColumn_InvoiceDate_def to_timestamp_def dedup_key_def
  retail_row.extend_def cleaned_row.fields_def total_amount_def

text \<open>
  C1, as the code has it. The input row \<open>r\<close> with the rows \<open>pre\<close> before it and
  \<open>post\<close> after it contributes its cleaned image to the cleaned table if and only if
  its Invoice and StockCode are not null, its Quantity and Price are not null and
  positive, and no surviving row of \<open>pre\<close> has its (Invoice, StockCode, InvoiceDate)
  key; the rows before it survive as without it, and the rows after it survive unless
  an earlier survivor has their key. Whether the date cell parses plays no part: a cell
  that does not parse becomes a null timestamp, and null is a key value like any other.
\<close>

theorem cleaning_survival:
  "df_cleaned E parse (pre @ r # post) =
     df_cleaned E parse pre @
     (if Invoice r \<noteq> None \<and> retail_row.StockCode r \<noteq> None \<and>
         (\<exists>q. Quantity r = Some q \<and> 0 < q) \<and> (\<exists>p. Price r = Some p \<and> 0 < p) \<and>
         dedup_key (withColumn_TotalAmount E (withColumn_InvoiceDate parse r))
           \<notin> dedup_key ` set (df_cleaned E parse pre)
      then [withColumn_TotalAmount E (withColumn_InvoiceDate parse r)] else []) @
     filter (\<lambda>c. dedup_key c \<notin> dedup_key ` set (df_cleaned E parse (pre @ [r])))
       (df_cleaned E parse post)"
proof -
  have step1: "df_cleaned E parse (pre @ r # post) =
      df_cleaned E parse (pre @ [r]) @
      filter (\<lambda>c. dedup_key c \<notin> dedup_key ` set (df_cleaned E parse (pre @ [r])))
        (df_cleaned E parse post)"
    using df_cleaned_append [of E parse "pre @ [r]" post] by simp
  have step2: "df_cleaned E parse (pre @ [r]) =
      df_cleaned E parse pre @
      (if Invoice r \<noteq> None \<and> retail_row.StockCode r \<noteq> None \<and>
         (\<exists>q. Quantity r = Some q \<and> 0 < q) \<and> (\<exists>p. Price r = Some p \<and> 0 < p) \<and>
         dedup_key (withColumn_TotalAmount E (withColumn_InvoiceDate parse r))
           \<notin> dedup_key ` set (df_cleaned E parse pre)
      then [withColumn_TotalAmount E (withColumn_InvoiceDate parse r)] else [])"
    by (simp add: df_cleaned_append [of E parse pre "[r]"] df_cleaned_single df_candidates_single)
  show ?thesis
    unfolding step1 by (simp only: step2 append_assoc)
qed

text \<open>
  At the sample rows: of two rows with one key the first survives, the row whose date
  does not parse survives as well, and the return does not.
\<close>

theorem cleaning_survival_witness:
  "df_cleaned sample_engine sample_parse ([row_a] @ row_b # [row_bad_date, row_return]) =
     [withColumn_TotalAmount sample_engine (withColumn_InvoiceDate sample_parse row_a),
      withColumn_TotalAmount sample_engine (withColumn_InvoiceDate sample_parse row_bad_date)]"
  using cleaning_survival [of sample_engine sample_parse "[row_a]" row_b "[row_bad_date, row_return]"]
  by (simp add: df_cleaned_def df_candidates_def dropna_def positive_def sample_defs)

text \<open>
  C1 as stated fails: a row whose invoice date does not parse is in the cleaned table,
  and so is a row whose invoice date is null.
\<close>

theorem unparseable_date_survives:
  "to_timestamp sample_parse (InvoiceDate row_bad_date) = None \<and>
   df_cleaned sample_engine sample_parse [row_bad_date] =
     [withColumn_TotalAmount sample_engine (withColumn_InvoiceDate sample_parse row_bad_date)] \<and>
   to_timestamp sample_parse (InvoiceDate row_no_date) = None \<and>
   df_cleaned sample_engine sample_parse [row_no_date] =
     [withColumn_TotalAmount sample_engine (withColumn_InvoiceDate sample_parse row_no_date)]"
  by (simp add: df_cleaned_single df_candidates_single sample_defs)

text \<open>
  C2. In the cleaned table no two rows have the same (Invoice, StockCode, InvoiceDate)
  key, and for every row of the table before deduplication exactly one row with its key
  is in the cleaned table.
\<close>

theorem cleaned_keys_unique:
  "distinct (map dedup_key (df_cleaned E parse df_raw)) \<and>
   (\<forall>c\<in>set (df_candidates E parse df_raw).
      length (filter (\<lambda>x. dedup_key x = dedup_key c) (df_cleaned E parse df_raw)) = 1)"
proof
  show "distinct (map dedup_key (df_cleaned E parse df_raw))"
    by (simp add: df_cleaned_def distinct_keys_dropDuplicates)
  show "\<forall>c\<in>set (df_candidates E parse df_raw).
      length (filter (\<lambda>x. dedup_key x = dedup_key c) (df_cleaned E parse df_raw)) = 1"
  proof
    fix c assume "c \<in> set (df_candidates E parse df_raw)"
    then have "dedup_key c \<in> dedup_key ` set (df_cleaned E parse df_raw)"
      by (simp add: keys_df_cleaned)
    moreover have "distinct (map dedup_key (df_cleaned E parse df_raw))"
      by (simp add: df_cleaned_def distinct_keys_dropDuplicates)
    ultimately show "length (filter (\<lambda>x. dedup_key x = dedup_key c) (df_cleaned E parse df_raw)) = 1"
      by (simp add: length_filter_key_one)
  qed
qed

text \<open>The two sample rows with one key: both are candidates, one row with the key remains.\<close>

theorem cleaned_keys_unique_witness:
  "df_candidates sample_engine sample_parse [row_a, row_b] =
     [withColumn_TotalAmount sample_engine (withColumn_InvoiceDate sample_parse row_a),
      withColumn_TotalAmount sample_engine (withColumn_InvoiceDate sample_parse row_b)] \<and>
   distinct (map dedup_key (df_cleaned sample_engine sample_parse [row_a, row_b])) \<and>
   length (filter (\<lambda>x. dedup_key x =
                    dedup_key (withColumn_TotalAmount sample_engine (withColumn_InvoiceDate sample_parse row_b)))
            (df_cleaned sample_engine sample_parse [row_a, row_b])) = 1"
proof -
  have cand: "df_candidates sample_engine sample_parse [row_a, row_b] =
     [withColumn_TotalAmount sample_engine (withColumn_InvoiceDate sample_parse row_a),
      withColumn_TotalAmount sample_engine (withColumn_InvoiceDate sample_parse row_b)]"
    by (simp add: df_candidates_def dropna_def positive_def row_a_def row_b_def)
  then have "withColumn_TotalAmount sample_engine (withColumn_InvoiceDate sample_parse row_b)
      \<in> set (df_candidates sample_engine sample_parse [row_a, row_b])"
    by simp
  with cleaned_keys_unique [of sample_engine sample_parse "[row_a, row_b]"] cand show ?thesis
    by blast
qed

subsection \<open>Enrichment\<close>

lemma truncate_add_features: "cleaned_row.truncate (add_features c) = c"
  by (cases c) (simp add: add_features_def cleaned_row.truncate_def cleaned_row.extend_def)

lemma columns_eval:
  "cleaned_columns = [''Invoice'', ''StockCode'', ''Description'', ''Quantity'', ''InvoiceDate'',
     ''Price'', ''Customer ID'', ''Country'', ''fiscal_year'', ''TotalAmount'']"
  "enriched_columns = cleaned_columns @ [''Year'', ''Month'', ''Quarter'', ''DayName'', ''Hour'', ''MonthName'']"
  by (simp_all add: cleaned_columns_def enriched_columns_def raw_columns_def withColumn_name_def)

lemma cols_psubset: "set cleaned_columns \<subset> set enriched_columns"
proof -
  have "''Year'' \<notin> set cleaned_columns" by (simp add: columns_eval(1))
  moreover have "''Year'' \<in> set enriched_columns" by (simp add: columns_eval(2))
  moreover have "set cleaned_columns \<subseteq> set enriched_columns" by (auto simp: columns_eval(2))
  ultimately show ?thesis by blast
qed

text \<open>
  C5. The enriched table has as many rows as the cleaned table, the base columns of its
  rows are the rows of the cleaned table, in the same order, and the cleaned columns are
  a proper subset of the enriched columns.
\<close>

theorem enrichment_one_to_one:
  "length (df_enriched df) = length df \<and>
   map cleaned_row.truncate (df_enriched df) = df \<and>
   set cleaned_columns \<subset> set enriched_columns"
proof -
  have "map cleaned_row.truncate (df_enriched df) = df"
    by (simp add: df_enriched_def comp_def truncate_add_features)
  then show ?thesis
    using cols_psubset by (simp add: df_enriched_def)
qed

lemma year_None: "(year c = None) = (c = None)"
  by (simp add: year_def)

lemma month_None: "(month c = None) = (c = None)"
  by (simp add: month_def)

lemma quarter_None: "(quarter c = None) = (c = None)"
  by (simp add: quarter_def)

lemma hour_None: "(hour c = None) = (c = None)"
  by (simp add: hour_def)

lemma EEEE_None: "(date_format_EEEE c = None) = (c = None)"
  by (simp add: date_format_EEEE_def)

lemma MMMM_None: "(date_format_MMMM c = None) = (c = None)"
  by (simp add: date_format_MMMM_def)

lemma add_features_null:
  "(enriched_row.Year (add_features c) = None) = (InvoiceDate c = None) \<and>
   (enriched_row.Month (add_features c) = None) = (InvoiceDate c = None) \<and>
   (Quarter (add_features c) = None) = (InvoiceDate c = None) \<and>
   (DayName (add_features c) = None) = (InvoiceDate c = None) \<and>
   (Hour (add_features c) = None) = (InvoiceDate c = None) \<and>
   (enriched_row.MonthName (add_features c) = None) = (InvoiceDate c = None) \<and>
   InvoiceDate (add_features c) = InvoiceDate c"
  by (cases c)
     (simp add: add_features_def cleaned_row.extend_def enriched_row.fields_def
        year_None month_None quarter_None hour_None EEEE_None MMMM_None)

text \<open>
  C8, as the code has it. Enrichment never fails: its outcome is a table with one row for
  each input row, and each of the six derived columns of a row is null exactly when the
  invoice timestamp of the row is null.
\<close>

theorem enrichment_never_fails:
  "\<exists>out. enrichment_stage df = Inr out \<and> length out = length df \<and>
     (\<forall>e\<in>set out.
        (enriched_row.Year e = None) = (InvoiceDate e = None) \<and>
        (enriched_row.Month e = None) = (InvoiceDate e = None) \<and>
        (Quarter e = None) = (InvoiceDate e = None) \<and>
        (DayName e = None) = (InvoiceDate e = None) \<and>
        (Hour e = None) = (InvoiceDate e = None) \<and>
        (enriched_row.MonthName e = None) = (InvoiceDate e = None))"
proof -
  have "\<forall>e\<in>set (df_enriched df).
        (enriched_row.Year e = None) = (InvoiceDate e = None) \<and>
        (enriched_row.Month e = None) = (InvoiceDate e = None) \<and>
        (Quarter e = None) = (InvoiceDate e = None) \<and>
        (DayName e = None) = (InvoiceDate e = None) \<and>
        (Hour e = None) = (InvoiceDate e = None) \<and>
        (enriched_row.MonthName e = None) = (InvoiceDate e = None)"
  proof
    fix e assume "e \<in> set (df_enriched df)"
    then obtain c where e: "e = add_features c" by (auto simp: df_enriched_def)
    show "(enriched_row.Year e = None) = (InvoiceDate e = None) \<and>
        (enriched_row.Month e = None) = (InvoiceDate e = None) \<and>
        (Quarter e = None) = (InvoiceDate e = None) \<and>
        (DayName e = None) = (InvoiceDate e = None) \<and>
        (Hour e = None) = (InvoiceDate e = None) \<and>
        (enriched_row.MonthName e = None) = (InvoiceDate e = None)"
      unfolding e using add_features_null [of c] by simp
  qed
  then show ?thesis
    by (simp add: enrichment_stage_def df_enriched_def)
qed

text \<open>
  The cleaned table of the row whose date does not parse is enriched to one row with a
  null year.
\<close>

theorem enrichment_never_fails_witness:
  "enrichment_stage (df_cleaned sample_engine sample_parse [row_bad_date]) =
     Inr [add_features (withColumn_TotalAmount sample_engine (withColumn_InvoiceDate sample_parse row_bad_date))] \<and>
   enriched_row.Year
     (add_features (withColumn_TotalAmount sample_engine (withColumn_InvoiceDate sample_parse row_bad_date))) = None"
proof -
  have cl: "df_cleaned sample_engine sample_parse [row_bad_date] =
      [withColumn_TotalAmount sample_engine (withColumn_InvoiceDate sample_parse row_bad_date)]"
    by (simp add: df_cleaned_single df_candidates_single row_a_def row_bad_date_def)
  have nul: "InvoiceDate (add_features (withColumn_TotalAmount sample_engine
      (withColumn_InvoiceDate sample_parse row_bad_date))) = None"
    by (simp add: add_features_null sample_defs)
  from enrichment_never_fails [of "df_cleaned sample_engine sample_parse [row_bad_date]"] cl nul
  show ?thesis
    by (simp add: enrichment_stage_def df_enriched_def)
qed

text \<open>
  C8 as stated fails: cleaning yields a row that lacks a timestamp, and enrichment of that
  table does not fail with InvalidTimestampError but gives a row with a null hour.
\<close>

theorem enrichment_of_missing_timestamp:
  "map InvoiceDate (df_cleaned sample_engine sample_parse [row_bad_date]) = [None] \<and>
   enrichment_stage (df_cleaned sample_engine sample_parse [row_bad_date]) \<noteq> Inl InvalidTimestampError \<and>
   map Hour (df_enriched (df_cleaned sample_engine sample_parse [row_bad_date])) = [None]"
proof -
  have cl: "df_cleaned sample_engine sample_parse [row_bad_date] =
      [withColumn_TotalAmount sample_engine (withColumn_InvoiceDate sample_parse row_bad_date)]"
    by (simp add: df_cleaned_single df_candidates_single row_a_def row_bad_date_def)
  have nul: "InvoiceDate (withColumn_TotalAmount sample_engine
      (withColumn_InvoiceDate sample_parse row_bad_date)) = None"
    by (simp add: sample_defs)
  show ?thesis
    using add_features_null [of "withColumn_TotalAmount sample_engine
      (withColumn_InvoiceDate sample_parse row_bad_date)"]
    by (simp add: cl nul enrichment_stage_def df_enriched_def)
qed

subsection \<open>Customer summary\<close>





lemma customer_rfm_row:
  assumes "s \<in> set (customer_rfm E df)"
  shows "\<exists>k. LastPurchaseDate s =
             max_agg (map InvoiceDate (filter (\<lambda>r. retail_row.Customer_ID r = k) df)) \<and>
           Recency s = datediff (max_date df) (LastPurchaseDate s)"
  using assms
  by (auto simp: customer_rfm_def groupBy_def customer_agg.extend_def customer_rfm_row.fields_def)







subsection \<open>Country summary\<close>

lemma count_agg_no_null:
  assumes "\<forall>x\<in>set xs. x \<noteq> None"
  shows "count_agg xs = length xs"
  using assms by (induction xs rule: non_null.induct) (simp_all add: count_agg_def)

lemma df_cleaned_Invoice:
  assumes "c \<in> set (df_cleaned E parse df_raw)"
  shows "Invoice c \<noteq> None"
proof -
  have "c \<in> set (df_candidates E parse df_raw)"
    using assms set_df_cleaned_subset by blast
  then obtain r where "c = withColumn_TotalAmount E (withColumn_InvoiceDate parse r)"
      and "Invoice r \<noteq> None"
    using df_candidates_row by blast
  then show ?thesis
    by (simp add: withColumn_TotalAmount_def withColumn_InvoiceDate_def retail_row.extend_def)
qed

lemma country_sales_row:
  assumes "s \<in> set (country_sales E df)"
  shows "TotalOrders s =
    count_agg (map Invoice (filter (\<lambda>r. retail_row.Country r = country_sales_row.Country s) df))"
  using assms by (auto simp: country_sales_def groupBy_def)

text \<open>
  C7. For every country of the country summary of a cleaned table, TotalOrders is the
  number of rows of the cleaned table with that country.
\<close>

theorem total_orders_row_count:
  "\<forall>s\<in>set (country_sales E (df_cleaned E parse df_raw)).
     TotalOrders s =
       length (filter (\<lambda>r. retail_row.Country r = country_sales_row.Country s)
                 (df_cleaned E parse df_raw))"
proof
  fix s assume s: "s \<in> set (country_sales E (df_cleaned E parse df_raw))"
  let ?g = "filter (\<lambda>r. retail_row.Country r = country_sales_row.Country s)
              (df_cleaned E parse df_raw)"
  have "\<forall>x\<in>set (map Invoice ?g). x \<noteq> None"
    using df_cleaned_Invoice [of _ E parse df_raw] by auto
  then have "count_agg (map Invoice ?g) = length ?g"
    using count_agg_no_null [of "map Invoice ?g"] by simp
  then show "TotalOrders s = length ?g"
    using country_sales_row [OF s] by simp
qed

lemma sample_cleaned_lines:
  "df_cleaned sample_engine sample_parse [row_a, row_c] =
     [withColumn_TotalAmount sample_engine (withColumn_InvoiceDate sample_parse row_a),
      withColumn_TotalAmount sample_engine (withColumn_InvoiceDate sample_parse row_c)]"
  by (simp add: df_cleaned_def df_candidates_def dropna_def positive_def sample_defs row_c_def)

lemma sample_country_sales:
  "map (\<lambda>s. (country_sales_row.Country s, TotalOrders s))
     (country_sales sample_engine (df_cleaned sample_engine sample_parse [row_a, row_c])) = [(Some ''United Kingdom'', 2)]"
  unfolding sample_cleaned_lines
  by (simp add: country_sales_def groupBy_def count_agg_def sample_defs row_c_def)

lemma sample_total_orders: "total_orders (df_cleaned sample_engine sample_parse [row_a, row_c]) = 1"
  unfolding sample_cleaned_lines
  by (simp add: total_orders_def distinct_count_def sample_defs row_c_def)

text \<open>
  Two lines of one invoice in one country: TotalOrders is 2, the number of rows, while
  the table has one distinct invoice.
\<close>

theorem total_orders_row_count_witness:
  "map (\<lambda>s. (country_sales_row.Country s, TotalOrders s))
     (country_sales sample_engine (df_cleaned sample_engine sample_parse [row_a, row_c])) = [(Some ''United Kingdom'', 2)] \<and>
   length (df_cleaned sample_engine sample_parse [row_a, row_c]) = 2 \<and>
   total_orders (df_cleaned sample_engine sample_parse [row_a, row_c]) = 1"
  using total_orders_row_count [of sample_engine sample_parse "[row_a, row_c]"]
    sample_country_sales sample_total_orders
  by (simp add: sample_cleaned_lines)

subsection \<open>Distinct customers\<close>




lemma product_analysis_row:
  assumes "s \<in> set (product_analysis E df)"
  shows "product_analysis_row.UniqueCustomers s =
    countDistinct (map retail_row.Customer_ID
      (filter (\<lambda>r. retail_row.StockCode r = product_analysis_row.StockCode s \<and>
                    retail_row.Description r = product_analysis_row.Description s) df))"
  using assms by (auto simp: product_analysis_def groupBy_def prod_eq_iff)














end
